theory Spec2Isabelle
  imports Main "HOL-Library.Sublist"
begin

section \<open>JavaScript values and string primitives used by the resource provider\<close>

text \<open>
  Strings are modelled as \<^typ>\<open>string\<close> (lists of 8-bit characters): a JavaScript string is
  represented by the bytes of its UTF-8 encoding, so that an ASCII string is the list of
  its characters and the character U+FFFD is the three bytes \<^verbatim>\<open>EF BF BD\<close>. The case
  conversion below covers the ASCII letters, which are the only letters occurring in the
  keys of the media type table.
\<close>

text \<open>
  \<^verbatim>\<open>s.split(sep)\<close> for a one-character separator: the pieces between the occurrences of
  the separator. The result always has at least one element (\<^verbatim>\<open>"".split("/")\<close> is
  \<^verbatim>\<open>[""]\<close>, and \<^verbatim>\<open>"a/".split("/")\<close> is \<^verbatim>\<open>["a", ""]\<close>).
\<close>

fun split :: "char \<Rightarrow> string \<Rightarrow> string list" where
  "split sep [] = [[]]"
| "split sep (c # cs) =
     (if c = sep then [] # split sep cs
      else (case split sep cs of
              [] \<Rightarrow> [[c]]
            | piece # pieces \<Rightarrow> (c # piece) # pieces))"

text \<open>\<^verbatim>\<open>Array.prototype.pop\<close>: the last element, \<^verbatim>\<open>undefined\<close> on the empty array.\<close>

definition pop :: "'a list \<Rightarrow> 'a option" where
  "pop xs = (if xs = [] then None else Some (last xs))"

text \<open>\<^verbatim>\<open>String.prototype.toLowerCase\<close> on ASCII: \<^verbatim>\<open>A\<close>..\<^verbatim>\<open>Z\<close> move to \<^verbatim>\<open>a\<close>..\<^verbatim>\<open>z\<close>.\<close>

definition lower_char :: "char \<Rightarrow> char" where
  "lower_char c =
     (let n = (of_char c :: nat)
      in if 65 \<le> n \<and> n \<le> 90 then char_of (n + 32) else c)"

definition toLowerCase :: "string \<Rightarrow> string" where
  "toLowerCase s = map lower_char s"

text \<open>\<^verbatim>\<open>String(n)\<close> for a non-negative integer: its decimal digits.\<close>

fun digits :: "nat \<Rightarrow> string" where
  "digits n =
     (if n < 10 then [char_of (48 + n)]
      else digits (n div 10) @ [char_of (48 + n mod 10)])"

text \<open>
  A value caught by a \<^verbatim>\<open>catch\<close> clause: an \<^verbatim>\<open>Error\<close> object with its message, or any
  other value, represented by what \<^verbatim>\<open>String(value)\<close> yields for it.
\<close>

datatype thrown = Error (message: string) | NonError (as_string: string)

text \<open>\<^verbatim>\<open>error instanceof Error ? error.message : String(error)\<close>\<close>

definition error_text :: "thrown \<Rightarrow> string" where
  "error_text e = (case e of Error m \<Rightarrow> m | NonError s \<Rightarrow> s)"

text \<open>
  What a property read on the object literal \<^verbatim>\<open>mimeTypes\<close> can yield: a string of the
  table, or a member inherited from \<^verbatim>\<open>Object.prototype\<close> (named by its property key).
\<close>

datatype js_value = JSString string | JSInherited string

definition truthy :: "js_value \<Rightarrow> bool" where
  "truthy v = (case v of JSString s \<Rightarrow> s \<noteq> [] | JSInherited _ \<Rightarrow> True)"

section \<open>Media type inference\<close>

definition mimeTypes :: "(string \<times> string) list" where
  "mimeTypes =
     [(''js'', ''text/javascript''),
      (''ts'', ''text/typescript''),
      (''jsx'', ''text/jsx''),
      (''tsx'', ''text/tsx''),
      (''json'', ''application/json''),
      (''md'', ''text/markdown''),
      (''txt'', ''text/plain''),
      (''html'', ''text/html''),
      (''css'', ''text/css''),
      (''py'', ''text/x-python''),
      (''java'', ''text/x-java''),
      (''c'', ''text/x-c''),
      (''cpp'', ''text/x-c++''),
      (''rs'', ''text/x-rust''),
      (''go'', ''text/x-go''),
      (''rb'', ''text/x-ruby''),
      (''php'', ''text/x-php''),
      (''sh'', ''text/x-shellscript''),
      (''yaml'', ''text/yaml''),
      (''yml'', ''text/yaml''),
      (''xml'', ''text/xml''),
      (''svg'', ''image/svg+xml''),
      (''png'', ''image/png''),
      (''jpg'', ''image/jpeg''),
      (''jpeg'', ''image/jpeg''),
      (''gif'', ''image/gif''),
      (''pdf'', ''application/pdf'')]"

text \<open>The property keys every object literal inherits from \<^verbatim>\<open>Object.prototype\<close>.\<close>

definition Object_prototype_keys :: "string list" where
  "Object_prototype_keys =
     [''constructor'', ''__defineGetter__'', ''__defineSetter__'', ''hasOwnProperty'',
      ''__lookupGetter__'', ''__lookupSetter__'', ''isPrototypeOf'',
      ''propertyIsEnumerable'', ''toString'', ''valueOf'', ''__proto__'',
      ''toLocaleString'']"

text \<open>
  \<^verbatim>\<open>mimeTypes[key]\<close>: an own property of the literal first, then the prototype chain,
  \<^verbatim>\<open>undefined\<close> otherwise.
\<close>

definition mimeTypes_get :: "string \<Rightarrow> js_value option" where
  "mimeTypes_get key =
     (case map_of mimeTypes key of
        Some v \<Rightarrow> Some (JSString v)
      | None \<Rightarrow> if key \<in> set Object_prototype_keys then Some (JSInherited key) else None)"

text \<open>
  \<^verbatim>\<open>const ext = filename.split(".").pop()?.toLowerCase();\<close>
  \<^verbatim>\<open>return mimeTypes[ext || ""] || "application/octet-stream";\<close>
\<close>

definition getMimeType :: "string \<Rightarrow> js_value" where
  "getMimeType filename =
     (let ext = map_option toLowerCase (pop (split CHR ''.'' filename));
          key = (case ext of None \<Rightarrow> [] | Some e \<Rightarrow> e)
      in case mimeTypes_get key of
           None \<Rightarrow> JSString ''application/octet-stream''
         | Some v \<Rightarrow> if truthy v then v else JSString ''application/octet-stream'')"

section \<open>Decoding a file body\<close>

text \<open>
  \<^verbatim>\<open>Buffer.from(s, "base64")\<close>: the decoder accepts the standard and the URL-safe
  alphabet, skips every other character (the remote service breaks the body into lines)
  and stops at the first padding character. Four characters give three bytes; two or
  three characters left over give one or two bytes, a single one gives none. The
  remote service sends an encoded body of ASCII characters; a character outside ASCII
  is taken here as bytes that are not in the alphabet.
\<close>

definition unbase64 :: "char \<Rightarrow> nat option" where
  "unbase64 c =
     (let n = (of_char c :: nat)
      in if 65 \<le> n \<and> n \<le> 90 then Some (n - 65)
         else if 97 \<le> n \<and> n \<le> 122 then Some (n - 71)
         else if 48 \<le> n \<and> n \<le> 57 then Some (n + 4)
         else if c = CHR ''+'' \<or> c = CHR ''-'' then Some 62
         else if c = CHR ''/'' \<or> c = CHR ''_'' then Some 63
         else None)"

fun sextets_to_bytes :: "nat list \<Rightarrow> nat list" where
  "sextets_to_bytes (a # b # c # d # rest) =
     (a * 4 + b div 16) # ((b mod 16) * 16 + c div 4) # ((c mod 4) * 64 + d)
       # sextets_to_bytes rest"
| "sextets_to_bytes [a, b, c] = [a * 4 + b div 16, (b mod 16) * 16 + c div 4]"
| "sextets_to_bytes [a, b] = [a * 4 + b div 16]"
| "sextets_to_bytes _ = []"

definition base64_decode :: "string \<Rightarrow> nat list" where
  "base64_decode s =
     sextets_to_bytes (List.map_filter unbase64 (takeWhile (\<lambda>c. c \<noteq> CHR ''='') s))"

text \<open>
  \<^verbatim>\<open>buffer.toString("utf-8")\<close>: the UTF-8 decoder with replacement. A well-formed sequence
  of one to four bytes stands for one character, whose UTF-8 encoding is that sequence
  again; every maximal ill-formed part is replaced by the character U+FFFD. While a
  sequence is being read the decoder holds the bytes seen so far, the number of bytes
  still needed and the bounds for the next byte; a byte outside the bounds ends the
  sequence with a replacement and is then read again as the start of a new sequence.
\<close>

definition replacement_character :: "nat list" where
  "replacement_character = [0xEF, 0xBF, 0xBD]"

type_synonym utf8_pending = "nat list \<times> nat \<times> nat \<times> nat"

definition utf8_lead :: "nat \<Rightarrow> nat list \<times> utf8_pending option" where
  "utf8_lead b =
     (if b \<le> 0x7F then ([b], None)
      else if 0xC2 \<le> b \<and> b \<le> 0xDF then ([], Some ([b], 1, 0x80, 0xBF))
      else if 0xE0 \<le> b \<and> b \<le> 0xEF then
        ([], Some ([b], 2, if b = 0xE0 then 0xA0 else 0x80, if b = 0xED then 0x9F else 0xBF))
      else if 0xF0 \<le> b \<and> b \<le> 0xF4 then
        ([], Some ([b], 3, if b = 0xF0 then 0x90 else 0x80, if b = 0xF4 then 0x8F else 0xBF))
      else (replacement_character, None))"

definition utf8_step :: "utf8_pending option \<Rightarrow> nat \<Rightarrow> nat list \<times> utf8_pending option" where
  "utf8_step pending b =
     (case pending of
        None \<Rightarrow> utf8_lead b
      | Some (seen, needed, lower, upper) \<Rightarrow>
          if lower \<le> b \<and> b \<le> upper then
            (if needed = 1 then (seen @ [b], None)
             else ([], Some (seen @ [b], needed - 1, 0x80, 0xBF)))
          else (case utf8_lead b of (out, pending') \<Rightarrow> (replacement_character @ out, pending')))"

fun utf8_run :: "utf8_pending option \<Rightarrow> nat list \<Rightarrow> nat list" where
  "utf8_run pending [] = (case pending of None \<Rightarrow> [] | Some _ \<Rightarrow> replacement_character)"
| "utf8_run pending (b # bs) =
     (case utf8_step pending b of (out, pending') \<Rightarrow> out @ utf8_run pending' bs)"

definition toString_utf8 :: "nat list \<Rightarrow> string" where
  "toString_utf8 bytes = map char_of (utf8_run None bytes)"

text \<open>\<^verbatim>\<open>Buffer.from(s, "base64").toString("utf-8")\<close>\<close>

definition base64_to_utf8 :: "string \<Rightarrow> string" where
  "base64_to_utf8 s = toString_utf8 (base64_decode s)"






section \<open>The remote service\<close>

text \<open>
  The responses of the remote repository service, as far as the provider reads them.
  Every call either yields its \<^verbatim>\<open>data\<close> or throws.
\<close>

record repo_info =
  default_branch :: string

record git_ref =
  object_sha :: string

record git_commit =
  tree_sha :: string

record tree_item =
  item_path :: string
  item_type :: string
  item_size :: "nat option"

record git_tree =
  tree :: "tree_item list"

record content_file =
  data_type :: string
  data_content :: "string option"

text \<open>\<^verbatim>\<open>repos.getContent\<close> answers with an array for a directory, with one object otherwise.\<close>

datatype content_data = Listing "content_file list" | Single content_file

record octokit =
  repos_get :: "string \<Rightarrow> string \<Rightarrow> thrown + repo_info"
  git_getRef :: "string \<Rightarrow> string \<Rightarrow> string \<Rightarrow> thrown + git_ref"
  git_getCommit :: "string \<Rightarrow> string \<Rightarrow> string \<Rightarrow> thrown + git_commit"
  git_getTree :: "string \<Rightarrow> string \<Rightarrow> string \<Rightarrow> string \<Rightarrow> thrown + git_tree"
  repos_getContent :: "string \<Rightarrow> string \<Rightarrow> string \<Rightarrow> thrown + content_data"

text \<open>
  \<^verbatim>\<open>new Octokit({ auth: accessToken })\<close> is a parameter of the operations below: a
  function from the access token to the client, which fixes what every remote call
  returns.
\<close>

type_synonym octokit_new = "string \<Rightarrow> octokit"

text \<open>One call of \<^verbatim>\<open>console.error\<close>: its arguments, strings or caught values.\<close>

datatype console_arg = Str string | Caught thrown

type_synonym console = "console_arg list list"

section \<open>File resources\<close>

record URL =
  href :: string

record content =
  content_uri :: string
  content_title :: string
  content_text :: string
  content_mimeType :: js_value
  content_size :: nat

record FileResource =
  accessToken :: string
  owner :: string
  repo :: string
  filePath :: string
  fileName :: string
  fileSize :: nat
  name :: string
  uri :: string
  title :: string
  description :: string
  size_bytes :: nat

text \<open>The constructor of \<^verbatim>\<open>FileResource\<close>; \<^verbatim>\<open>size_bytes\<close> is the field \<^verbatim>\<open>size\<close>.\<close>

definition FileResource_new ::
  "string \<Rightarrow> string \<Rightarrow> string \<Rightarrow> string \<Rightarrow> string \<Rightarrow> nat \<Rightarrow> FileResource" where
  "FileResource_new accessToken' owner' repo' filePath' fileName' fileSize' =
     \<lparr>accessToken = accessToken', owner = owner', repo = repo', filePath = filePath',
      fileName = fileName', fileSize = fileSize',
      name = filePath',
      uri = ''github://file/'' @ filePath',
      title = fileName',
      description = ''File: '' @ filePath' @ '' ('' @ digits fileSize' @ '' bytes)'',
      size_bytes = fileSize'\<rparr>"

text \<open>The getter \<^verbatim>\<open>mimeType\<close>.\<close>

definition mimeType :: "FileResource \<Rightarrow> js_value" where
  "mimeType this = getMimeType (fileName this)"

text \<open>
  \<^verbatim>\<open>handler(uri)\<close>: the \<^verbatim>\<open>try\<close> block is \<open>handler_try\<close>, the \<^verbatim>\<open>catch\<close> clause wraps
  whatever it threw into a new \<^verbatim>\<open>Error\<close>.
\<close>

definition handler_try :: "octokit_new \<Rightarrow> FileResource \<Rightarrow> URL \<Rightarrow> thrown + content list" where
  "handler_try Octokit this url =
     (let octokit = Octokit (accessToken this)
      in case repos_getContent octokit (owner this) (repo this) (filePath this) of
           Inl error \<Rightarrow> Inl error
         | Inr (Listing _) \<Rightarrow> Inl (Error (''Path '' @ filePath this @ '' is not a file''))
         | Inr (Single data) \<Rightarrow>
             if data_type data = ''file'' then
               (let text = base64_to_utf8
                             (case data_content data of
                                None \<Rightarrow> []
                              | Some c \<Rightarrow> c)
                in Inr [\<lparr>content_uri = href url,
                         content_title = fileName this,
                         content_text = text,
                         content_mimeType = mimeType this,
                         content_size = fileSize this\<rparr>])
             else Inl (Error (''Path '' @ filePath this @ '' is not a file'')))"

definition handler :: "octokit_new \<Rightarrow> FileResource \<Rightarrow> URL \<Rightarrow> thrown + content list" where
  "handler Octokit this url =
     (case handler_try Octokit this url of
        Inl error \<Rightarrow> Inl (Error (''Failed to read file: '' @ error_text error))
      | Inr result \<Rightarrow> Inr result)"

section \<open>Listing the files of a repository\<close>

record listed_file =
  file_path :: string
  file_name :: string
  file_size :: nat

text \<open>\<^verbatim>\<open>item.path.split("/")?.pop() ?? "unknown"\<close>\<close>

definition leaf_name :: "string \<Rightarrow> string" where
  "leaf_name p = (case pop (split CHR ''/'' p) of None \<Rightarrow> ''unknown'' | Some s \<Rightarrow> s)"

text \<open>The predicate of \<^verbatim>\<open>filter\<close>: \<^verbatim>\<open>item.type === "blob" && item.path\<close>.\<close>

definition is_file_item :: "tree_item \<Rightarrow> bool" where
  "is_file_item item \<longleftrightarrow> item_type item = ''blob'' \<and> item_path item \<noteq> []"

text \<open>The function of \<^verbatim>\<open>map\<close>; \<^verbatim>\<open>item.size || 0\<close> is 0 for an absent size.\<close>

definition to_listed_file :: "tree_item \<Rightarrow> listed_file" where
  "to_listed_file item =
     \<lparr>file_path = item_path item,
      file_name = leaf_name (item_path item),
      file_size = (case item_size item of None \<Rightarrow> 0 | Some n \<Rightarrow> n)\<rparr>"

text \<open>The \<^verbatim>\<open>try\<close> block of \<^verbatim>\<open>listFiles\<close>: up to four remote calls, then filter and map.\<close>

definition listFiles_try ::
  "octokit \<Rightarrow> string \<Rightarrow> string \<Rightarrow> string option \<Rightarrow> thrown + listed_file list" where
  "listFiles_try octokit owner' repo' branch =
     (case (case branch of
              Some b \<Rightarrow>
                if b \<noteq> [] then Inr b
                else (case repos_get octokit owner' repo' of
                        Inl error \<Rightarrow> Inl error
                      | Inr repoInfo \<Rightarrow> Inr (default_branch repoInfo))
            | None \<Rightarrow>
                (case repos_get octokit owner' repo' of
                   Inl error \<Rightarrow> Inl error
                 | Inr repoInfo \<Rightarrow> Inr (default_branch repoInfo))) of
        Inl error \<Rightarrow> Inl error
      | Inr targetBranch \<Rightarrow>
          (case git_getRef octokit owner' repo' (''heads/'' @ targetBranch) of
             Inl error \<Rightarrow> Inl error
           | Inr ref \<Rightarrow>
               (case git_getCommit octokit owner' repo' (object_sha ref) of
                  Inl error \<Rightarrow> Inl error
                | Inr commit \<Rightarrow>
                    (case git_getTree octokit owner' repo' (tree_sha commit) ''true'' of
                       Inl error \<Rightarrow> Inl error
                     | Inr t \<Rightarrow> Inr (map to_listed_file (filter is_file_item (tree t)))))))"

text \<open>\<^verbatim>\<open>listFiles\<close>: the \<^verbatim>\<open>catch\<close> clause logs the failure and throws it again.\<close>

definition listFiles ::
  "octokit \<Rightarrow> string \<Rightarrow> string \<Rightarrow> string option \<Rightarrow> console \<times> (thrown + listed_file list)" where
  "listFiles octokit owner' repo' branch =
     (case listFiles_try octokit owner' repo' branch of
        Inl error \<Rightarrow> ([[Str ''Error fetching files from tree:'', Caught error]], Inl error)
      | Inr files \<Rightarrow> ([], Inr files))"

section \<open>Enumerating the resources\<close>

record Env =
  SOURCE_REPOSITORY_NAME :: "string option"
  BRANCH_NAME :: "string option"

text \<open>
  The greedy group \<^verbatim>\<open>([^/]+)\<close>: the longest prefix without a slash, which must not be
  empty, and the rest of the input. What follows each group in the pattern (a slash, the
  end of the input) cannot match inside the group, so no shorter match is ever tried
  with success.
\<close>

definition not_slash_plus :: "string \<Rightarrow> (string \<times> string) option" where
  "not_slash_plus s =
     (let m = takeWhile (\<lambda>c. c \<noteq> CHR ''/'') s
      in if m = [] then None else Some (m, dropWhile (\<lambda>c. c \<noteq> CHR ''/'') s))"

text \<open>
  \<^verbatim>\<open>s.match(/^([^/]+)\/([^/]+)$/)\<close>: the two captured groups, or \<open>None\<close> for
  \<^verbatim>\<open>null\<close>.
\<close>

definition repoMatch :: "string \<Rightarrow> (string \<times> string) option" where
  "repoMatch s =
     (case not_slash_plus s of
        None \<Rightarrow> None
      | Some (owner', rest) \<Rightarrow>
          (case rest of
             [] \<Rightarrow> None
           | c # rest' \<Rightarrow>
               if c \<noteq> CHR ''/'' then None
               else (case not_slash_plus rest' of
                       None \<Rightarrow> None
                     | Some (repo', rest'') \<Rightarrow>
                         if rest'' = [] then Some (owner', repo') else None)))"

text \<open>
  \<^verbatim>\<open>createFileResources\<close>. The result is the console output and what the promise
  settles to: \<open>Inr\<close> the resources when it is fulfilled, \<open>Inl\<close> when it is rejected. The
  only statement of the \<^verbatim>\<open>try\<close> block that throws is the call of \<^verbatim>\<open>listFiles\<close>.
\<close>

definition createFileResources ::
  "octokit_new \<Rightarrow> string \<Rightarrow> Env \<Rightarrow> console \<times> (thrown + FileResource list)" where
  "createFileResources Octokit accessToken' env =
     (case SOURCE_REPOSITORY_NAME env of
        None \<Rightarrow> ([[Str ''SOURCE_REPOSITORY_NAME environment variable is not set'']], Inr [])
      | Some repoName \<Rightarrow>
          if repoName = [] then
            ([[Str ''SOURCE_REPOSITORY_NAME environment variable is not set'']], Inr [])
          else
            (case repoMatch repoName of
               None \<Rightarrow>
                 ([[Str (''Invalid repository name format: '' @ repoName
                         @ ''. Expected format: owner/repo'')]], Inr [])
             | Some (owner', repo') \<Rightarrow>
                 (let fetching = [Str (''Fetching files from repository: '' @ owner' @ ''/'' @ repo')];
                      octokit = Octokit accessToken'
                  in case listFiles octokit owner' repo' (BRANCH_NAME env) of
                       (logged, Inl error) \<Rightarrow>
                         (fetching # logged
                            @ [[Str (''Failed to create file resources: '' @ error_text error)]],
                          Inr [])
                     | (logged, Inr files) \<Rightarrow>
                         if length files = 0 then
                           (fetching # logged
                              @ [[Str (''No files found in repository '' @ owner' @ ''/'' @ repo'
                                       @ '' with the specified filters'')]],
                            Inr [])
                         else
                           (fetching # logged
                              @ [[Str (''Found '' @ digits (length files)
                                       @ '' files in repository '' @ owner' @ ''/'' @ repo'
                                       @ '' after filtering'')]],
                            Inr (map (\<lambda>file. FileResource_new accessToken' owner' repo'
                                               (file_path file) (file_name file) (file_size file))
                                     files)))))"

section \<open>Two remote services used as worked examples\<close>

text \<open>A service that rejects every call, as for an unknown repository.\<close>

definition unreachable_Octokit :: octokit_new where
  "unreachable_Octokit token =
     \<lparr>repos_get = (\<lambda>_ _. Inl (Error ''Not Found'')),
      git_getRef = (\<lambda>_ _ _. Inl (Error ''Not Found'')),
      git_getCommit = (\<lambda>_ _ _. Inl (Error ''Not Found'')),
      git_getTree = (\<lambda>_ _ _ _. Inl (Error ''Not Found'')),
      repos_getContent = (\<lambda>_ _ _. Inl (Error ''Not Found''))\<rparr>"

text \<open>
  A small repository \<^verbatim>\<open>octo/demo\<close> with default branch \<^verbatim>\<open>main\<close>: two directories, two
  files and a submodule.
\<close>

definition demo_tree :: "tree_item list" where
  "demo_tree =
     [\<lparr>item_path = ''a'', item_type = ''tree'', item_size = None\<rparr>,
      \<lparr>item_path = ''a/b'', item_type = ''tree'', item_size = None\<rparr>,
      \<lparr>item_path = ''a/b/c.ext'', item_type = ''blob'', item_size = Some 12\<rparr>,
      \<lparr>item_path = ''README.md'', item_type = ''blob'', item_size = None\<rparr>,
      \<lparr>item_path = ''vendor/lib'', item_type = ''commit'', item_size = None\<rparr>]"

definition demo_Octokit :: octokit_new where
  "demo_Octokit token =
     \<lparr>repos_get = (\<lambda>ow rp.
        if ow = ''octo'' \<and> rp = ''demo'' then Inr \<lparr>default_branch = ''main''\<rparr>
        else Inl (Error ''Not Found'')),
      git_getRef = (\<lambda>ow rp ref.
        if ow = ''octo'' \<and> rp = ''demo'' \<and> ref = ''heads/main'' then Inr \<lparr>object_sha = ''c0ffee''\<rparr>
        else Inl (Error ''Not Found'')),
      git_getCommit = (\<lambda>ow rp sha.
        if ow = ''octo'' \<and> rp = ''demo'' \<and> sha = ''c0ffee'' then Inr \<lparr>tree_sha = ''7ree''\<rparr>
        else Inl (Error ''Not Found'')),
      git_getTree = (\<lambda>ow rp sha recursive.
        if ow = ''octo'' \<and> rp = ''demo'' \<and> sha = ''7ree'' then Inr \<lparr>tree = demo_tree\<rparr>
        else Inl (Error ''Not Found'')),
      repos_getContent = (\<lambda>ow rp p.
        if ow = ''octo'' \<and> rp = ''demo'' \<and> p = ''README.md''
          then Inr (Single \<lparr>data_type = ''file'', data_content = Some ''aGVsbG8=''\<rparr>)
        else if ow = ''octo'' \<and> rp = ''demo'' \<and> p = ''a/b/c.ext''
          then Inr (Single \<lparr>data_type = ''file'', data_content = None\<rparr>)
        else if ow = ''octo'' \<and> rp = ''demo'' \<and> p = ''a''
          then Inr (Listing [\<lparr>data_type = ''dir'', data_content = None\<rparr>])
        else Inl (Error ''Not Found''))\<rparr>"

definition demo_env :: Env where
  "demo_env = \<lparr>SOURCE_REPOSITORY_NAME = Some ''octo/demo'', BRANCH_NAME = None\<rparr>"

section \<open>Splitting a string\<close>

lemma split_not_Nil: "split sep s \<noteq> []"
  by (induction s) (auto split: list.splits)

lemma pop_split: "pop (split sep s) = Some (last (split sep s))"
  by (simp add: pop_def split_not_Nil)

lemma split_no_sep: "sep \<notin> set s \<Longrightarrow> split sep s = [s]"
  by (induction s) auto

lemma length_split: "length (split sep s) = Suc (count_list s sep)"
  by (induction s) (auto split: list.splits)

lemma split_singleton: "split sep s = [p] \<Longrightarrow> p = s"
  by (induction s arbitrary: p) (auto split: list.splits if_splits simp: split_not_Nil)

lemma last_split_append: "sep \<notin> set c \<Longrightarrow> last (split sep (xs @ sep # c)) = c"
proof (induction xs)
  case Nil
  then show ?case by (simp add: split_no_sep)
next
  case (Cons a xs)
  have "2 \<le> length (split sep (xs @ sep # c))"
    by (simp add: length_split)
  then obtain p q ps where "split sep (xs @ sep # c) = p # q # ps"
    by (cases "split sep (xs @ sep # c)"; cases "tl (split sep (xs @ sep # c))") auto
  with Cons show ?case by auto
qed

lemma last_split_empty_iff: "s \<noteq> [] \<Longrightarrow> last (split sep s) = [] \<longleftrightarrow> last s = sep"
proof (induction s)
  case Nil
  then show ?case by simp
next
  case (Cons a s)
  show ?case
  proof (cases "s = []")
    case True
    then show ?thesis by auto
  next
    case False
    with Cons have IH: "last (split sep s) = [] \<longleftrightarrow> last s = sep" by simp
    obtain p ps where sp: "split sep s = p # ps"
      using split_not_Nil [of sep s] by (cases "split sep s") auto
    have "ps = [] \<Longrightarrow> p \<noteq> []"
      using sp split_singleton [of sep s p] False by auto
    with IH sp False show ?thesis by auto
  qed
qed

lemma leaf_name_last: "leaf_name p = last (split CHR ''/'' p)"
  by (simp add: leaf_name_def pop_split)

section \<open>Facts about the listing and the enumeration\<close>

lemma listFiles_try_Inr:
  assumes "listFiles_try octokit ow rp branch = Inr files"
  shows "\<exists>targetBranch ref commit t.
           git_getRef octokit ow rp (''heads/'' @ targetBranch) = Inr ref
         \<and> git_getCommit octokit ow rp (object_sha ref) = Inr commit
         \<and> git_getTree octokit ow rp (tree_sha commit) ''true'' = Inr t
         \<and> files = map to_listed_file (filter is_file_item (tree t))"
  using assms unfolding listFiles_try_def
  by (auto split: sum.splits option.splits if_splits)

lemma listFiles_Inr:
  "snd (listFiles octokit ow rp branch) = Inr files
     \<longleftrightarrow> listFiles_try octokit ow rp branch = Inr files"
  by (auto simp: listFiles_def split: sum.splits)

lemma listFiles_Inl:
  "snd (listFiles octokit ow rp branch) = Inl e
     \<longleftrightarrow> listFiles_try octokit ow rp branch = Inl e"
  by (auto simp: listFiles_def split: sum.splits)

lemma createFileResources_cases:
  "snd (createFileResources Octokit tok env) = Inr []
   \<or> (\<exists>n ow rp files.
         SOURCE_REPOSITORY_NAME env = Some n \<and> repoMatch n = Some (ow, rp)
       \<and> snd (listFiles (Octokit tok) ow rp (BRANCH_NAME env)) = Inr files
       \<and> snd (createFileResources Octokit tok env) =
            Inr (map (\<lambda>file. FileResource_new tok ow rp
                               (file_path file) (file_name file) (file_size file)) files))"
  unfolding createFileResources_def
  by (auto split: option.splits sum.splits prod.splits simp: Let_def)

lemma listFiles_try_file_name:
  assumes "listFiles_try octokit ow rp branch = Inr files" and "f \<in> set files"
  shows "file_name f = last (split CHR ''/'' (file_path f))"
  using listFiles_try_Inr [OF assms(1)] assms(2)
  by (auto simp: to_listed_file_def leaf_name_last)

section \<open>Decoding recovers what was encoded\<close>



















text \<open>
  A body that is not well-formed UTF-8 is not returned as it is: the byte \<^verbatim>\<open>FF\<close> becomes
  the character U+FFFD. Line breaks inside the encoded body are skipped.
\<close>

lemma base64_to_utf8_ill_formed: "base64_to_utf8 ''/w=='' = [CHR 0xEF, CHR 0xBF, CHR 0xBD]"
  by code_simp

lemma base64_to_utf8_line_break: "base64_to_utf8 (''aGVs'' @ [CHR 0x0A] @ ''bG8='') = ''hello''"
  by code_simp

lemma base64_to_utf8_empty: "base64_to_utf8 [] = []"
  by (simp add: base64_to_utf8_def toString_utf8_def base64_decode_def)

text \<open>
  What the decoder does with a body that is not the encoding of a text: a padding
  character ends the Base64 input, a character outside the alphabet is skipped, a byte
  that cannot start a UTF-8 sequence is replaced, and so is a sequence cut short by an
  ASCII byte or by the end of the input.
\<close>

lemma takeWhile_before_padding:
  "CHR ''='' \<notin> set xs \<Longrightarrow>
     takeWhile (\<lambda>c. c \<noteq> CHR ''='') (xs @ ys) = xs @ takeWhile (\<lambda>c. c \<noteq> CHR ''='') ys"
  by (induction xs) auto

lemma takeWhile_after_padding:
  "CHR ''='' \<in> set xs \<Longrightarrow>
     takeWhile (\<lambda>c. c \<noteq> CHR ''='') (xs @ ys) = takeWhile (\<lambda>c. c \<noteq> CHR ''='') xs"
  by (induction xs) auto

lemma base64_decode_padding:
  assumes "CHR ''='' \<notin> set xs"
  shows "base64_decode (xs @ CHR ''='' # ys) = base64_decode xs"
proof -
  have "takeWhile (\<lambda>c. c \<noteq> CHR ''='') (xs @ CHR ''='' # ys) = xs"
    using takeWhile_before_padding [OF assms, of "CHR ''='' # ys"] by simp
  moreover have "takeWhile (\<lambda>c. c \<noteq> CHR ''='') xs = xs"
    using takeWhile_before_padding [OF assms, of "[]"] by simp
  ultimately show ?thesis
    by (simp only: base64_decode_def)
qed

lemma map_filter_over_append:
  "List.map_filter f (xs @ ys) = List.map_filter f xs @ List.map_filter f ys"
  by (simp add: List.map_filter_def)

lemma base64_decode_skip:
  assumes "unbase64 c = None" and "c \<noteq> CHR ''=''"
  shows "base64_decode (xs @ c # ys) = base64_decode (xs @ ys)"
proof (cases "CHR ''='' \<in> set xs")
  case True
  show ?thesis
    unfolding base64_decode_def
    by (simp only: takeWhile_after_padding [OF True])
next
  case False
  have "takeWhile (\<lambda>c. c \<noteq> CHR ''='') (xs @ c # ys)
      = xs @ c # takeWhile (\<lambda>c. c \<noteq> CHR ''='') ys"
    using takeWhile_before_padding [OF False, of "c # ys"] assms(2) by simp
  moreover have "takeWhile (\<lambda>c. c \<noteq> CHR ''='') (xs @ ys)
      = xs @ takeWhile (\<lambda>c. c \<noteq> CHR ''='') ys"
    by (rule takeWhile_before_padding [OF False])
  ultimately show ?thesis
    using assms(1) by (simp add: base64_decode_def map_filter_over_append)
qed

lemma utf8_run_no_lead:
  assumes "0x80 \<le> b \<and> b \<le> 0xC1 \<or> 0xF5 \<le> b"
  shows "utf8_run None (b # rest) = replacement_character @ utf8_run None rest"
  using assms by (auto simp: utf8_step_def utf8_lead_def)

lemma utf8_run_cut_short:
  assumes "0xC2 \<le> b" and "b \<le> 0xF4" and "a \<le> 0x7F"
  shows "utf8_run None (b # a # rest) = replacement_character @ a # utf8_run None rest"
  using assms by (auto simp: utf8_step_def utf8_lead_def)

lemma utf8_run_cut_short_at_end:
  assumes "0xC2 \<le> b" and "b \<le> 0xF4"
  shows "utf8_run None [b] = replacement_character"
  using assms by (auto simp: utf8_step_def utf8_lead_def)

section \<open>The tree entries that become files\<close>

text \<open>
  Claim C6. For every remote tree listing: when the branch is resolved (the configured
  one, or the default branch of the repository when none is configured) and the calls
  for its reference, its commit and the recursive tree succeed, the listing returns the
  entries of that tree, in the order of the tree, that report the type \<^verbatim>\<open>blob\<close> and have a
  non-empty path, and nothing else. Each entry kept carries its path, the last segment
  of the path as its name, and its reported size, 0 when none is reported; every such
  entry of the tree is in the result, every element of the result comes from such an
  entry, and a tree without an entry of type \<^verbatim>\<open>blob\<close> gives the empty sequence.
\<close>

theorem listFiles_keeps_exactly_blobs:
  assumes "(branch = None \<or> branch = Some [])
             \<and> (\<exists>repoInfo. repos_get octokit ow rp = Inr repoInfo
                    \<and> targetBranch = default_branch repoInfo)
           \<or> branch = Some targetBranch \<and> targetBranch \<noteq> []"
    and "git_getRef octokit ow rp (''heads/'' @ targetBranch) = Inr ref"
    and "git_getCommit octokit ow rp (object_sha ref) = Inr commit"
    and "git_getTree octokit ow rp (tree_sha commit) ''true'' = Inr t"
  shows "\<exists>files.
           snd (listFiles octokit ow rp branch) = Inr files
         \<and> files =
             map (\<lambda>item. \<lparr>file_path = item_path item,
                          file_name = last (split CHR ''/'' (item_path item)),
                          file_size = (case item_size item of None \<Rightarrow> 0 | Some n \<Rightarrow> n)\<rparr>)
                 (filter (\<lambda>item. item_type item = ''blob'' \<and> item_path item \<noteq> []) (tree t))
         \<and> (\<forall>item \<in> set (tree t). item_type item = ''blob'' \<and> item_path item \<noteq> [] \<longrightarrow>
               \<lparr>file_path = item_path item,
                file_name = last (split CHR ''/'' (item_path item)),
                file_size = (case item_size item of None \<Rightarrow> 0 | Some n \<Rightarrow> n)\<rparr> \<in> set files)
         \<and> (\<forall>file \<in> set files. \<exists>item \<in> set (tree t).
               item_type item = ''blob'' \<and> item_path item \<noteq> [] \<and> file_path file = item_path item)
         \<and> ((\<forall>item \<in> set (tree t). item_type item \<noteq> ''blob'') \<longrightarrow> files = [])"
proof -
  have keep: "is_file_item = (\<lambda>item. item_type item = ''blob'' \<and> item_path item \<noteq> [])"
    by (simp add: fun_eq_iff is_file_item_def)
  have entry: "to_listed_file =
      (\<lambda>item. \<lparr>file_path = item_path item,
                file_name = last (split CHR ''/'' (item_path item)),
                file_size = (case item_size item of None \<Rightarrow> 0 | Some n \<Rightarrow> n)\<rparr>)"
    by (simp add: fun_eq_iff to_listed_file_def leaf_name_last)
  have "listFiles_try octokit ow rp branch
          = Inr (map to_listed_file (filter is_file_item (tree t)))"
    using assms by (auto simp: listFiles_try_def)
  then have run: "snd (listFiles octokit ow rp branch)
          = Inr (map to_listed_file (filter is_file_item (tree t)))"
    by (simp add: listFiles_Inr)
  define files where "files = map to_listed_file (filter is_file_item (tree t))"
  have shape: "files =
             map (\<lambda>item. \<lparr>file_path = item_path item,
                          file_name = last (split CHR ''/'' (item_path item)),
                          file_size = (case item_size item of None \<Rightarrow> 0 | Some n \<Rightarrow> n)\<rparr>)
                 (filter (\<lambda>item. item_type item = ''blob'' \<and> item_path item \<noteq> []) (tree t))"
    by (simp only: files_def keep entry)
  have forth: "\<forall>item \<in> set (tree t). item_type item = ''blob'' \<and> item_path item \<noteq> [] \<longrightarrow>
               \<lparr>file_path = item_path item,
                file_name = last (split CHR ''/'' (item_path item)),
                file_size = (case item_size item of None \<Rightarrow> 0 | Some n \<Rightarrow> n)\<rparr> \<in> set files"
    unfolding shape by auto
  have back_again: "\<forall>file \<in> set files. \<exists>item \<in> set (tree t).
               item_type item = ''blob'' \<and> item_path item \<noteq> [] \<and> file_path file = item_path item"
    unfolding shape by auto
  have none: "(\<forall>item \<in> set (tree t). item_type item \<noteq> ''blob'') \<longrightarrow> files = []"
    unfolding shape by (auto simp: filter_empty_conv)
  from run shape forth back_again none show ?thesis
    unfolding files_def [symmetric] by blast
qed

text \<open>
  On the example repository the two directories and the submodule are dropped, and the
  file without a reported size gets size 0.
\<close>

theorem listFiles_keeps_exactly_blobs_witness:
  "snd (listFiles (demo_Octokit ''tok'') ''octo'' ''demo'' None) =
     Inr [\<lparr>file_path = ''a/b/c.ext'', file_name = ''c.ext'', file_size = 12\<rparr>,
          \<lparr>file_path = ''README.md'', file_name = ''README.md'', file_size = 0\<rparr>]"
proof -
  have branch: "((None :: string option) = None \<or> (None :: string option) = Some [])
             \<and> (\<exists>repoInfo. repos_get (demo_Octokit ''tok'') ''octo'' ''demo'' = Inr repoInfo
                    \<and> ''main'' = default_branch repoInfo)
           \<or> (None :: string option) = Some ''main'' \<and> ''main'' \<noteq> []"
    by (simp add: demo_Octokit_def)
  have ref: "git_getRef (demo_Octokit ''tok'') ''octo'' ''demo'' (''heads/'' @ ''main'')
      = Inr \<lparr>object_sha = ''c0ffee''\<rparr>"
    by (simp add: demo_Octokit_def)
  have commit: "git_getCommit (demo_Octokit ''tok'') ''octo'' ''demo''
      (object_sha \<lparr>object_sha = ''c0ffee''\<rparr>) = Inr \<lparr>tree_sha = ''7ree''\<rparr>"
    by (simp add: demo_Octokit_def)
  have tree: "git_getTree (demo_Octokit ''tok'') ''octo'' ''demo''
      (tree_sha \<lparr>tree_sha = ''7ree''\<rparr>) ''true'' = Inr \<lparr>tree = demo_tree\<rparr>"
    by (simp add: demo_Octokit_def)
  from listFiles_keeps_exactly_blobs [OF branch ref commit tree]
  have "snd (listFiles (demo_Octokit ''tok'') ''octo'' ''demo'' None) =
     Inr (map (\<lambda>item. \<lparr>file_path = item_path item,
                          file_name = last (split CHR ''/'' (item_path item)),
                          file_size = (case item_size item of None \<Rightarrow> 0 | Some n \<Rightarrow> n)\<rparr>)
                 (filter (\<lambda>item. item_type item = ''blob'' \<and> item_path item \<noteq> [])
                    (tree \<lparr>tree = demo_tree\<rparr>)))"
    by blast
  then show ?thesis
    by (simp add: demo_tree_def)
qed

section \<open>The leaf name of a path\<close>

text \<open>
  Claim C10, as stated, fails for a path that ends in a slash: the path \<^verbatim>\<open>src/\<close> is not
  empty and passes the filter, its pieces are \<^verbatim>\<open>["src", ""]\<close>, and the final piece, which
  becomes the name of the entry, is the empty string.
\<close>

theorem leaf_name_trailing_slash_counterexample:
  "item_path \<lparr>item_path = ''src/'', item_type = ''blob'', item_size = None\<rparr> \<noteq> []
   \<and> is_file_item \<lparr>item_path = ''src/'', item_type = ''blob'', item_size = None\<rparr>
   \<and> pop (split CHR ''/'' ''src/'') = Some []
   \<and> file_name (to_listed_file \<lparr>item_path = ''src/'', item_type = ''blob'', item_size = None\<rparr>) = []"
  by (simp add: is_file_item_def to_listed_file_def leaf_name_def pop_def)

text \<open>
  Claim C10, amended. Splitting any path yields at least one piece, so \<^verbatim>\<open>pop\<close> never
  yields \<^verbatim>\<open>undefined\<close> and the fallback \<^verbatim>\<open>"unknown"\<close> is never taken: the name of an entry
  is the final piece of its path, and it is \<^verbatim>\<open>unknown\<close> exactly when that piece is. The
  final piece of a non-empty path is empty exactly when the path ends in a slash.
\<close>

theorem leaf_name_never_falls_back:
  "pop (split CHR ''/'' (item_path item)) \<noteq> None
   \<and> file_name (to_listed_file item) = last (split CHR ''/'' (item_path item))
   \<and> (file_name (to_listed_file item) = ''unknown''
        \<longleftrightarrow> last (split CHR ''/'' (item_path item)) = ''unknown'')
   \<and> (item_path item \<noteq> [] \<longrightarrow>
        (file_name (to_listed_file item) = [] \<longleftrightarrow> last (item_path item) = CHR ''/''))"
  by (simp add: pop_split to_listed_file_def leaf_name_last last_split_empty_iff)

theorem leaf_name_never_falls_back_witness:
  "item_path \<lparr>item_path = ''docs/unknown'', item_type = ''blob'', item_size = None\<rparr> \<noteq> []
   \<and> pop (split CHR ''/'' ''docs/unknown'') \<noteq> None
   \<and> file_name (to_listed_file
        \<lparr>item_path = ''docs/unknown'', item_type = ''blob'', item_size = None\<rparr>) = ''unknown''
   \<and> last (item_path \<lparr>item_path = ''docs/unknown'', item_type = ''blob'', item_size = None\<rparr>)
        \<noteq> CHR ''/''"
  using leaf_name_never_falls_back
    [of "\<lparr>item_path = ''docs/unknown'', item_type = ''blob'', item_size = None\<rparr>"]
  by (simp add: pop_def)

section \<open>Fetching the content of a file\<close>



text \<open>
  Claim C8. When the remote service answers with a single object of type \<^verbatim>\<open>file\<close> that
  has no \<^verbatim>\<open>content\<close> field, the handler does not fail: it returns one content record,
  and the text of that record is the empty string.
\<close>

theorem handler_absent_content_is_empty_text:
  assumes "repos_getContent (Octokit (accessToken this)) (owner this) (repo this) (filePath this)
             = Inr (Single data)"
    and "data_type data = ''file''"
    and "data_content data = None"
  shows "\<exists>c. handler Octokit this url = Inr [c] \<and> content_text c = []"
  using assms
  by (simp add: handler_def handler_try_def base64_to_utf8_empty)

theorem handler_absent_content_is_empty_text_witness:
  "repos_getContent (demo_Octokit ''tok'') ''octo'' ''demo'' ''a/b/c.ext''
     = Inr (Single \<lparr>data_type = ''file'', data_content = None\<rparr>)
   \<and> (\<exists>c. handler demo_Octokit (FileResource_new ''tok'' ''octo'' ''demo'' ''a/b/c.ext'' ''c.ext'' 12)
            \<lparr>href = ''github://file/a/b/c.ext''\<rparr> = Inr [c]
          \<and> content_text c = [])"
proof -
  have resp: "repos_getContent
       (demo_Octokit (accessToken (FileResource_new ''tok'' ''octo'' ''demo'' ''a/b/c.ext'' ''c.ext'' 12)))
       (owner (FileResource_new ''tok'' ''octo'' ''demo'' ''a/b/c.ext'' ''c.ext'' 12))
       (repo (FileResource_new ''tok'' ''octo'' ''demo'' ''a/b/c.ext'' ''c.ext'' 12))
       (filePath (FileResource_new ''tok'' ''octo'' ''demo'' ''a/b/c.ext'' ''c.ext'' 12))
     = Inr (Single \<lparr>data_type = ''file'', data_content = None\<rparr>)"
    by (simp add: demo_Octokit_def FileResource_new_def)
  have "\<exists>c. handler demo_Octokit (FileResource_new ''tok'' ''octo'' ''demo'' ''a/b/c.ext'' ''c.ext'' 12)
            \<lparr>href = ''github://file/a/b/c.ext''\<rparr> = Inr [c]
          \<and> content_text c = []"
    by (rule handler_absent_content_is_empty_text
          [of demo_Octokit _ "\<lparr>data_type = ''file'', data_content = None\<rparr>", OF resp]) simp_all
  moreover have "repos_getContent (demo_Octokit ''tok'') ''octo'' ''demo'' ''a/b/c.ext''
     = Inr (Single \<lparr>data_type = ''file'', data_content = None\<rparr>)"
    by (simp add: demo_Octokit_def)
  ultimately show ?thesis by blast
qed

text \<open>
  Claim C9. The size in the content record is the size given to the descriptor when it
  was constructed, whatever the remote service answers at the time of the fetch; it is
  the descriptor's own size field. It is not computed from the fetched text: in the
  example repository the file \<^verbatim>\<open>README.md\<close> was listed without a size, so its descriptor has
  size 0, while the text fetched for it has five characters.
\<close>

theorem handler_size_is_enumerated_size:
  "(\<forall>result. handler Octokit (FileResource_new tok ow rp p n sz) url = Inr result \<longrightarrow>
       result \<noteq> [] \<and> (\<forall>c \<in> set result.
          content_size c = sz
        \<and> content_size c = size_bytes (FileResource_new tok ow rp p n sz)))
   \<and> (\<exists>c. handler demo_Octokit (FileResource_new ''tok'' ''octo'' ''demo'' ''README.md'' ''README.md'' 0)
              \<lparr>href = ''github://file/README.md''\<rparr> = Inr [c]
          \<and> content_size c = 0 \<and> length (content_text c) = 5)"
proof -
  have fixed: "\<forall>result. handler Octokit (FileResource_new tok ow rp p n sz) url = Inr result \<longrightarrow>
       result \<noteq> [] \<and> (\<forall>c \<in> set result.
          content_size c = sz
        \<and> content_size c = size_bytes (FileResource_new tok ow rp p n sz))"
    by (auto simp: handler_def handler_try_def FileResource_new_def Let_def
        split: sum.splits content_data.splits if_splits)
  have run: "handler demo_Octokit (FileResource_new ''tok'' ''octo'' ''demo'' ''README.md'' ''README.md'' 0)
              \<lparr>href = ''github://file/README.md''\<rparr> =
     Inr [\<lparr>content_uri = ''github://file/README.md'', content_title = ''README.md'',
           content_text = ''hello'', content_mimeType = JSString ''text/markdown'',
           content_size = 0\<rparr>]"
    by code_simp
  have stale: "\<exists>c. handler demo_Octokit (FileResource_new ''tok'' ''octo'' ''demo'' ''README.md'' ''README.md'' 0)
              \<lparr>href = ''github://file/README.md''\<rparr> = Inr [c]
          \<and> content_size c = 0 \<and> length (content_text c) = 5"
    by (rule exI [of _ "\<lparr>content_uri = ''github://file/README.md'', content_title = ''README.md'',
           content_text = ''hello'', content_mimeType = JSString ''text/markdown'',
           content_size = 0\<rparr>"]) (simp only: run, simp)
  from fixed stale show ?thesis by (rule conjI)
qed

theorem handler_size_is_enumerated_size_witness:
  "handler demo_Octokit (FileResource_new ''tok'' ''octo'' ''demo'' ''README.md'' ''README.md'' 0)
       \<lparr>href = ''github://file/README.md''\<rparr> =
     Inr [\<lparr>content_uri = ''github://file/README.md'', content_title = ''README.md'',
           content_text = ''hello'', content_mimeType = JSString ''text/markdown'',
           content_size = 0\<rparr>]
   \<and> content_size \<lparr>content_uri = ''github://file/README.md'', content_title = ''README.md'',
           content_text = ''hello'', content_mimeType = JSString ''text/markdown'',
           content_size = 0\<rparr> = size_bytes (FileResource_new ''tok'' ''octo'' ''demo'' ''README.md'' ''README.md'' 0)"
proof -
  have run: "handler demo_Octokit (FileResource_new ''tok'' ''octo'' ''demo'' ''README.md'' ''README.md'' 0)
       \<lparr>href = ''github://file/README.md''\<rparr> =
     Inr [\<lparr>content_uri = ''github://file/README.md'', content_title = ''README.md'',
           content_text = ''hello'', content_mimeType = JSString ''text/markdown'',
           content_size = 0\<rparr>]"
    by code_simp
  from handler_size_is_enumerated_size
      [of demo_Octokit "''tok''" "''octo''" "''demo''" "''README.md''" "''README.md''" 0
          "\<lparr>href = ''github://file/README.md''\<rparr>"]
  have "\<forall>result. handler demo_Octokit (FileResource_new ''tok'' ''octo'' ''demo'' ''README.md'' ''README.md'' 0) \<lparr>href = ''github://file/README.md''\<rparr> = Inr result \<longrightarrow>
       result \<noteq> [] \<and> (\<forall>c \<in> set result.
          content_size c = 0
        \<and> content_size c = size_bytes (FileResource_new ''tok'' ''octo'' ''demo'' ''README.md'' ''README.md'' 0))"
    by (rule conjunct1)
  with run have "\<forall>c \<in> set [\<lparr>content_uri = ''github://file/README.md'', content_title = ''README.md'',
           content_text = ''hello'', content_mimeType = JSString ''text/markdown'',
           content_size = 0\<rparr>]. content_size c = size_bytes (FileResource_new ''tok'' ''octo'' ''demo'' ''README.md'' ''README.md'' 0)"
    by blast
  then have "content_size \<lparr>content_uri = ''github://file/README.md'', content_title = ''README.md'',
           content_text = ''hello'', content_mimeType = JSString ''text/markdown'',
           content_size = 0\<rparr> = size_bytes (FileResource_new ''tok'' ''octo'' ''demo'' ''README.md'' ''README.md'' 0)"
    by (simp only: list.set ball_simps)
  with run show ?thesis by (rule conjI)
qed

section \<open>Failures of a fetch\<close>

text \<open>
  Claim C3, as stated, fails when the remote call itself fails: the error of the handler is
  \<^verbatim>\<open>Failed to read file: \<close> followed by the message of the remote failure, and the path of
  the file does not occur in it.
\<close>

theorem handler_remote_failure_counterexample:
  "repos_getContent (unreachable_Octokit ''tok'') ''octo'' ''demo'' ''docs/a.txt''
       = Inl (Error ''Not Found'')
   \<and> handler unreachable_Octokit
       (FileResource_new ''tok'' ''octo'' ''demo'' ''docs/a.txt'' ''a.txt'' 3)
       \<lparr>href = ''github://file/docs/a.txt''\<rparr>
       = Inl (Error ''Failed to read file: Not Found'')
   \<and> \<not> sublist ''docs/a.txt'' ''Failed to read file: Not Found''"
  by code_simp

text \<open>
  Claim C3, amended. The handler fails exactly when the remote call fails or its answer
  is not a single object of type \<^verbatim>\<open>file\<close>. The failure reaches the caller as one
  \<^verbatim>\<open>Error\<close> whose message is \<^verbatim>\<open>Failed to read file: \<close> followed by the underlying cause:
  the message of the remote failure, or \<^verbatim>\<open>Path <path> is not a file\<close>, which names the path,
  when the answer is not a single file.
\<close>

theorem handler_failure:
  "((\<exists>e. handler Octokit this url = Inl e) \<longleftrightarrow>
      \<not> (\<exists>data. repos_getContent (Octokit (accessToken this)) (owner this) (repo this)
                    (filePath this) = Inr (Single data)
                \<and> data_type data = ''file''))
   \<and> (\<forall>error. repos_getContent (Octokit (accessToken this)) (owner this) (repo this)
                  (filePath this) = Inl error \<longrightarrow>
         handler Octokit this url
           = Inl (Error (''Failed to read file: '' @ error_text error)))
   \<and> (\<forall>data. repos_getContent (Octokit (accessToken this)) (owner this) (repo this)
                  (filePath this) = Inr data
              \<and> (case data of Listing _ \<Rightarrow> True | Single d \<Rightarrow> data_type d \<noteq> ''file'') \<longrightarrow>
         handler Octokit this url
           = Inl (Error (''Failed to read file: Path '' @ filePath this @ '' is not a file''))
       \<and> sublist (filePath this)
           (''Failed to read file: Path '' @ filePath this @ '' is not a file''))"
proof -
  have names: "sublist (filePath this)
           (''Failed to read file: Path '' @ filePath this @ '' is not a file'')"
    unfolding sublist_def
    by (intro exI [of _ "''Failed to read file: Path ''"] exI [of _ "'' is not a file''"]) simp
  show ?thesis
    using names
    by (cases "repos_getContent (Octokit (accessToken this)) (owner this) (repo this)
                    (filePath this)")
      (auto simp: handler_def handler_try_def error_text_def Let_def
        split: content_data.splits thrown.splits)
qed

theorem handler_failure_witness:
  "handler unreachable_Octokit
       (FileResource_new ''tok'' ''octo'' ''demo'' ''docs/a.txt'' ''a.txt'' 3)
       \<lparr>href = ''github://file/docs/a.txt''\<rparr>
       = Inl (Error (''Failed to read file: '' @ error_text (Error ''Not Found'')))
   \<and> handler demo_Octokit (FileResource_new ''tok'' ''octo'' ''demo'' ''a'' ''a'' 0)
       \<lparr>href = ''github://file/a''\<rparr>
       = Inl (Error ''Failed to read file: Path a is not a file'')"
proof -
  have one: "repos_getContent
       (unreachable_Octokit (accessToken (FileResource_new ''tok'' ''octo'' ''demo'' ''docs/a.txt'' ''a.txt'' 3)))
       (owner (FileResource_new ''tok'' ''octo'' ''demo'' ''docs/a.txt'' ''a.txt'' 3))
       (repo (FileResource_new ''tok'' ''octo'' ''demo'' ''docs/a.txt'' ''a.txt'' 3))
       (filePath (FileResource_new ''tok'' ''octo'' ''demo'' ''docs/a.txt'' ''a.txt'' 3))
     = Inl (Error ''Not Found'')"
    by (simp add: unreachable_Octokit_def)
  have two: "repos_getContent
       (demo_Octokit (accessToken (FileResource_new ''tok'' ''octo'' ''demo'' ''a'' ''a'' 0)))
       (owner (FileResource_new ''tok'' ''octo'' ''demo'' ''a'' ''a'' 0))
       (repo (FileResource_new ''tok'' ''octo'' ''demo'' ''a'' ''a'' 0))
       (filePath (FileResource_new ''tok'' ''octo'' ''demo'' ''a'' ''a'' 0))
     = Inr (Listing [\<lparr>data_type = ''dir'', data_content = None\<rparr>])"
    by (simp add: demo_Octokit_def FileResource_new_def)
  have path: "filePath (FileResource_new ''tok'' ''octo'' ''demo'' ''a'' ''a'' 0) = ''a''"
    by (simp add: FileResource_new_def)
  from handler_failure [of unreachable_Octokit
      "FileResource_new ''tok'' ''octo'' ''demo'' ''docs/a.txt'' ''a.txt'' 3"
      "\<lparr>href = ''github://file/docs/a.txt''\<rparr>"] one
  have first: "handler unreachable_Octokit
       (FileResource_new ''tok'' ''octo'' ''demo'' ''docs/a.txt'' ''a.txt'' 3)
       \<lparr>href = ''github://file/docs/a.txt''\<rparr>
       = Inl (Error (''Failed to read file: '' @ error_text (Error ''Not Found'')))"
    by blast
  from handler_failure [of demo_Octokit
      "FileResource_new ''tok'' ''octo'' ''demo'' ''a'' ''a'' 0"
      "\<lparr>href = ''github://file/a''\<rparr>"] two
  have "handler demo_Octokit (FileResource_new ''tok'' ''octo'' ''demo'' ''a'' ''a'' 0)
       \<lparr>href = ''github://file/a''\<rparr>
       = Inl (Error (''Failed to read file: Path ''
            @ filePath (FileResource_new ''tok'' ''octo'' ''demo'' ''a'' ''a'' 0) @ '' is not a file''))"
    by simp
  with first path show ?thesis by simp
qed

section \<open>The repository identifier\<close>

lemma not_slash_plus_Some:
  assumes "not_slash_plus s = Some (m, r)"
  shows "s = m @ r" and "m \<noteq> []" and "CHR ''/'' \<notin> set m" and "r = [] \<or> hd r = CHR ''/''"
proof -
  from assms have m: "m = takeWhile (\<lambda>c. c \<noteq> CHR ''/'') s"
    and r: "r = dropWhile (\<lambda>c. c \<noteq> CHR ''/'') s" and ne: "m \<noteq> []"
    by (auto simp: not_slash_plus_def Let_def split: if_splits)
  show "s = m @ r" by (simp add: m r)
  show "m \<noteq> []" by (rule ne)
  show "CHR ''/'' \<notin> set m" using set_takeWhileD [of "CHR ''/''" _ s] by (auto simp: m)
  show "r = [] \<or> hd r = CHR ''/''" using hd_dropWhile [of "\<lambda>c. c \<noteq> CHR ''/''" s] by (auto simp: r)
qed

lemma not_slash_plus_append:
  assumes "m \<noteq> []" and "CHR ''/'' \<notin> set m" and "r = [] \<or> hd r = CHR ''/''"
  shows "not_slash_plus (m @ r) = Some (m, r)"
proof -
  have "takeWhile (\<lambda>c. c \<noteq> CHR ''/'') (m @ r) = m"
    using assms by (cases r) (auto simp: takeWhile_append2 [of m] takeWhile_append)
  moreover have "dropWhile (\<lambda>c. c \<noteq> CHR ''/'') (m @ r) = r"
    using assms by (cases r) (auto simp: dropWhile_append)
  ultimately show ?thesis using assms(1) by (simp add: not_slash_plus_def)
qed

lemma repoMatch_Some:
  assumes "repoMatch s = Some (ow, rp)"
  shows "s = ow @ ''/'' @ rp \<and> ow \<noteq> [] \<and> rp \<noteq> []
       \<and> CHR ''/'' \<notin> set ow \<and> CHR ''/'' \<notin> set rp"
proof -
  from assms obtain rest rest' where
    first: "not_slash_plus s = Some (ow, CHR ''/'' # rest)"
    and second: "not_slash_plus rest = Some (rp, rest')" and "rest' = []"
    by (auto simp: repoMatch_def split: option.splits list.splits if_splits)
  with not_slash_plus_Some [OF first] not_slash_plus_Some [OF second]
  show ?thesis by simp
qed

lemma repoMatch_owner_repo:
  assumes "ow \<noteq> []" and "rp \<noteq> []" and "CHR ''/'' \<notin> set ow" and "CHR ''/'' \<notin> set rp"
  shows "repoMatch (ow @ ''/'' @ rp) = Some (ow, rp)"
proof -
  have "not_slash_plus (ow @ CHR ''/'' # rp) = Some (ow, CHR ''/'' # rp)"
    using assms by (intro not_slash_plus_append) simp_all
  moreover have "not_slash_plus (rp @ []) = Some (rp, [])"
    using assms by (intro not_slash_plus_append) simp_all
  ultimately show ?thesis by (simp add: repoMatch_def)
qed

text \<open>
  The strings that the pattern rejects are exactly the malformed identifiers: no slash,
  more than one slash, or nothing before or after the slash.
\<close>

lemma repoMatch_None_iff:
  "repoMatch s = None \<longleftrightarrow>
     s = [] \<or> CHR ''/'' \<notin> set s \<or> 1 < count_list s CHR ''/''
     \<or> (\<exists>rp. s = ''/'' @ rp) \<or> (\<exists>ow. s = ow @ ''/'')"
proof
  assume none: "repoMatch s = None"
  show "s = [] \<or> CHR ''/'' \<notin> set s \<or> 1 < count_list s CHR ''/''
     \<or> (\<exists>rp. s = ''/'' @ rp) \<or> (\<exists>ow. s = ow @ ''/'')"
  proof (rule ccontr)
    assume good: "\<not> ?thesis"
    then have "CHR ''/'' \<in> set s" by simp
    then obtain ow rp where s: "s = ow @ CHR ''/'' # rp" and ow: "CHR ''/'' \<notin> set ow"
      by (auto dest: split_list_first)
    from good have "count_list s CHR ''/'' \<le> 1" by simp
    with ow have rp: "CHR ''/'' \<notin> set rp"
      by (simp add: s count_list_0_iff)
    from good have "ow \<noteq> []" "rp \<noteq> []"
      by (auto simp: s)
    with ow rp have "repoMatch (ow @ ''/'' @ rp) = Some (ow, rp)"
      by (intro repoMatch_owner_repo)
    with none show False by (simp add: s)
  qed
next
  assume bad: "s = [] \<or> CHR ''/'' \<notin> set s \<or> 1 < count_list s CHR ''/''
     \<or> (\<exists>rp. s = ''/'' @ rp) \<or> (\<exists>ow. s = ow @ ''/'')"
  show "repoMatch s = None"
  proof (rule ccontr)
    assume "repoMatch s \<noteq> None"
    then obtain ow rp where "repoMatch s = Some (ow, rp)" by auto
    from repoMatch_Some [OF this]
    have s: "s = ow @ ''/'' @ rp" and ne: "ow \<noteq> []" "rp \<noteq> []"
      and no: "CHR ''/'' \<notin> set ow" "CHR ''/'' \<notin> set rp"
      by simp_all
    have one: "count_list s CHR ''/'' = 1"
      using no by (simp add: s count_list_0_iff)
    have mem: "CHR ''/'' \<in> set s" by (simp add: s)
    have "hd s \<noteq> CHR ''/''" using ne no by (cases ow) (auto simp: s)
    then have no_front: "\<not> (\<exists>rp'. s = ''/'' @ rp')" by auto
    have "last s \<noteq> CHR ''/''" using ne no by (simp add: s) (metis last_in_set)
    then have no_back: "\<not> (\<exists>ow'. s = ow' @ ''/'')" by auto
    have "s \<noteq> []" using mem by auto
    with bad one mem no_front no_back show False by simp
  qed
qed

text \<open>
  Claim C4. When the repository identifier is absent, or is a string that is empty, has
  no slash, has more than one slash, starts with the slash (empty owner) or ends with
  it (empty name), the enumeration is fulfilled with the empty sequence, whatever the
  remote service would answer.
\<close>

theorem createFileResources_malformed_repository:
  assumes "SOURCE_REPOSITORY_NAME env = None
         \<or> (\<exists>s. SOURCE_REPOSITORY_NAME env = Some s
               \<and> (s = []
                  \<or> CHR ''/'' \<notin> set s
                  \<or> 1 < count_list s CHR ''/''
                  \<or> (\<exists>rp. s = ''/'' @ rp)
                  \<or> (\<exists>ow. s = ow @ ''/'')))"
  shows "snd (createFileResources Octokit tok env) = Inr []"
proof (cases "SOURCE_REPOSITORY_NAME env")
  case None
  then show ?thesis by (simp add: createFileResources_def)
next
  case (Some s)
  with assms have bad: "s = [] \<or> CHR ''/'' \<notin> set s \<or> 1 < count_list s CHR ''/''
      \<or> (\<exists>rp. s = ''/'' @ rp) \<or> (\<exists>ow. s = ow @ ''/'')"
    by simp
  then have "repoMatch s = None"
    by (simp only: repoMatch_None_iff)
  with Some show ?thesis by (simp add: createFileResources_def)
qed

theorem createFileResources_malformed_repository_witness:
  "(SOURCE_REPOSITORY_NAME \<lparr>SOURCE_REPOSITORY_NAME = Some ''octo/demo/extra'', BRANCH_NAME = None\<rparr> = None
         \<or> (\<exists>s. SOURCE_REPOSITORY_NAME \<lparr>SOURCE_REPOSITORY_NAME = Some ''octo/demo/extra'', BRANCH_NAME = None\<rparr> = Some s
               \<and> (s = []
                  \<or> CHR ''/'' \<notin> set s
                  \<or> 1 < count_list s CHR ''/''
                  \<or> (\<exists>rp. s = ''/'' @ rp)
                  \<or> (\<exists>ow. s = ow @ ''/''))))
   \<and> snd (createFileResources demo_Octokit ''tok''
            \<lparr>SOURCE_REPOSITORY_NAME = Some ''octo/demo/extra'', BRANCH_NAME = None\<rparr>) = Inr []"
proof -
  have hyp: "SOURCE_REPOSITORY_NAME \<lparr>SOURCE_REPOSITORY_NAME = Some ''octo/demo/extra'', BRANCH_NAME = None\<rparr> = None
         \<or> (\<exists>s. SOURCE_REPOSITORY_NAME \<lparr>SOURCE_REPOSITORY_NAME = Some ''octo/demo/extra'', BRANCH_NAME = None\<rparr> = Some s
               \<and> (s = []
                  \<or> CHR ''/'' \<notin> set s
                  \<or> 1 < count_list s CHR ''/''
                  \<or> (\<exists>rp. s = ''/'' @ rp)
                  \<or> (\<exists>ow. s = ow @ ''/'')))"
    by simp
  from hyp createFileResources_malformed_repository [OF hyp, of demo_Octokit "''tok''"]
  show ?thesis by (rule conjI)
qed

section \<open>The descriptor of a file\<close>

text \<open>
  Claim C5. For a well-formed repository identifier and every successful listing, the
  enumeration returns one descriptor per listed file, in the order of the listing: its
  name is the full path of the file, its title the final segment of the path, and its
  URI the string \<^verbatim>\<open>github://file/\<close> followed by the path. In particular every listed
  path of the form \<^verbatim>\<open>a/b/c.ext\<close> (the last segment holding no slash) has a descriptor with
  that name, the title \<^verbatim>\<open>c.ext\<close> and the URI \<^verbatim>\<open>github://file/a/b/c.ext\<close>, and every
  descriptor whose name has that form has that title and that URI.
\<close>

theorem descriptor_name_title_uri:
  assumes "SOURCE_REPOSITORY_NAME env = Some (ow @ ''/'' @ rp)"
    and "ow \<noteq> []" and "rp \<noteq> []" and "CHR ''/'' \<notin> set ow" and "CHR ''/'' \<notin> set rp"
    and "snd (listFiles (Octokit tok) ow rp (BRANCH_NAME env)) = Inr files"
  shows "\<exists>resources.
           snd (createFileResources Octokit tok env) = Inr resources
         \<and> resources =
             map (\<lambda>file. FileResource_new tok ow rp (file_path file)
                           (last (split CHR ''/'' (file_path file))) (file_size file)) files
         \<and> map name resources = map file_path files
         \<and> map title resources = map (\<lambda>file. last (split CHR ''/'' (file_path file))) files
         \<and> map uri resources = map (\<lambda>file. ''github://file/'' @ file_path file) files
         \<and> (\<forall>a b c. a @ ''/'' @ b @ ''/'' @ c \<in> file_path ` set files \<and> CHR ''/'' \<notin> set c \<longrightarrow>
               (\<exists>r \<in> set resources.
                   name r = a @ ''/'' @ b @ ''/'' @ c
                 \<and> title r = c
                 \<and> uri r = ''github://file/'' @ a @ ''/'' @ b @ ''/'' @ c))
         \<and> (\<forall>r \<in> set resources. \<forall>a b c.
               name r = a @ ''/'' @ b @ ''/'' @ c \<and> CHR ''/'' \<notin> set c \<longrightarrow>
                 title r = c \<and> uri r = ''github://file/'' @ a @ ''/'' @ b @ ''/'' @ c)"
proof -
  define descriptor where
    "descriptor = (\<lambda>file :: listed_file. FileResource_new tok ow rp (file_path file)
                           (last (split CHR ''/'' (file_path file))) (file_size file))"
  define resources where "resources = map descriptor files"
  have matched: "repoMatch (ow @ ''/'' @ rp) = Some (ow, rp)"
    using assms(2-5) by (rule repoMatch_owner_repo)
  have listed: "listFiles_try (Octokit tok) ow rp (BRANCH_NAME env) = Inr files"
    using assms(6) by (simp add: listFiles_Inr)
  have names: "file_name f = last (split CHR ''/'' (file_path f))" if "f \<in> set files" for f
    using listFiles_try_file_name [OF listed that] .
  then have same: "map (\<lambda>file. FileResource_new tok ow rp
                               (file_path file) (file_name file) (file_size file)) files
      = resources"
    by (simp add: resources_def descriptor_def)
  have nonempty: "ow @ ''/'' @ rp \<noteq> []"
    by simp
  have "snd (createFileResources Octokit tok env) =
      (if length files = 0 then Inr []
       else Inr (map (\<lambda>file. FileResource_new tok ow rp
                               (file_path file) (file_name file) (file_size file)) files))"
    using assms(1) matched assms(6) nonempty
    by (cases "listFiles (Octokit tok) ow rp (BRANCH_NAME env)")
      (simp add: createFileResources_def Let_def del: append.simps append_Cons)
  then have run: "snd (createFileResources Octokit tok env) = Inr resources"
    using same by (cases files) (simp_all add: resources_def)
  have fields: "name (descriptor f) = file_path f"
    "title (descriptor f) = last (split CHR ''/'' (file_path f))"
    "uri (descriptor f) = ''github://file/'' @ file_path f" for f
    by (simp_all add: descriptor_def FileResource_new_def)
  have leaf: "last (split CHR ''/'' (a @ ''/'' @ b @ ''/'' @ c)) = c" if "CHR ''/'' \<notin> set c" for a b c
  proof -
    have "a @ ''/'' @ b @ ''/'' @ c = (a @ ''/'' @ b) @ CHR ''/'' # c"
      by simp
    then show ?thesis
      by (simp only: last_split_append [OF that])
  qed
  have forth: "\<exists>r \<in> set resources.
                   name r = a @ ''/'' @ b @ ''/'' @ c
                 \<and> title r = c
                 \<and> uri r = ''github://file/'' @ a @ ''/'' @ b @ ''/'' @ c"
    if "a @ ''/'' @ b @ ''/'' @ c \<in> file_path ` set files" "CHR ''/'' \<notin> set c" for a b c
  proof -
    from that(1) obtain f where f: "f \<in> set files" "file_path f = a @ ''/'' @ b @ ''/'' @ c"
      by auto
    have "descriptor f \<in> set resources"
      using f(1) by (simp add: resources_def)
    moreover have "name (descriptor f) = a @ ''/'' @ b @ ''/'' @ c"
      "title (descriptor f) = c"
      "uri (descriptor f) = ''github://file/'' @ a @ ''/'' @ b @ ''/'' @ c"
      using leaf [OF that(2), of a b] by (simp_all only: fields f(2))
    ultimately show ?thesis by blast
  qed
  have every: "title r = c \<and> uri r = ''github://file/'' @ a @ ''/'' @ b @ ''/'' @ c"
    if "r \<in> set resources" "name r = a @ ''/'' @ b @ ''/'' @ c" "CHR ''/'' \<notin> set c" for r a b c
  proof -
    from that(1) obtain f where r: "r = descriptor f"
      by (auto simp: resources_def)
    with that(2) have "file_path f = a @ ''/'' @ b @ ''/'' @ c"
      by (simp only: fields)
    then show ?thesis
      using leaf [OF that(3), of a b] by (simp only: r fields)
  qed
  have maps: "map name resources = map file_path files"
    "map title resources = map (\<lambda>file. last (split CHR ''/'' (file_path file))) files"
    "map uri resources = map (\<lambda>file. ''github://file/'' @ file_path file) files"
    by (simp_all add: resources_def fields del: append.simps append_Cons)
  show ?thesis
  proof (rule exI [of _ resources], intro conjI)
    show "snd (createFileResources Octokit tok env) = Inr resources"
      by (rule run)
    show "resources =
             map (\<lambda>file. FileResource_new tok ow rp (file_path file)
                           (last (split CHR ''/'' (file_path file))) (file_size file)) files"
      by (simp only: resources_def descriptor_def)
    show "map name resources = map file_path files"
      by (rule maps(1))
    show "map title resources = map (\<lambda>file. last (split CHR ''/'' (file_path file))) files"
      by (rule maps(2))
    show "map uri resources = map (\<lambda>file. ''github://file/'' @ file_path file) files"
      by (rule maps(3))
    show "\<forall>a b c. a @ ''/'' @ b @ ''/'' @ c \<in> file_path ` set files \<and> CHR ''/'' \<notin> set c \<longrightarrow>
               (\<exists>r \<in> set resources.
                   name r = a @ ''/'' @ b @ ''/'' @ c
                 \<and> title r = c
                 \<and> uri r = ''github://file/'' @ a @ ''/'' @ b @ ''/'' @ c)"
      using forth by blast
    show "\<forall>r \<in> set resources. \<forall>a b c.
               name r = a @ ''/'' @ b @ ''/'' @ c \<and> CHR ''/'' \<notin> set c \<longrightarrow>
                 title r = c \<and> uri r = ''github://file/'' @ a @ ''/'' @ b @ ''/'' @ c"
      using every by blast
  qed
qed

theorem descriptor_name_title_uri_witness:
  "snd (createFileResources demo_Octokit ''tok'' demo_env) =
     Inr [FileResource_new ''tok'' ''octo'' ''demo'' ''a/b/c.ext'' ''c.ext'' 12,
          FileResource_new ''tok'' ''octo'' ''demo'' ''README.md'' ''README.md'' 0]
   \<and> (\<exists>r \<in> set [FileResource_new ''tok'' ''octo'' ''demo'' ''a/b/c.ext'' ''c.ext'' 12,
                   FileResource_new ''tok'' ''octo'' ''demo'' ''README.md'' ''README.md'' 0].
         name r = ''a/b/c.ext'' \<and> title r = ''c.ext'' \<and> uri r = ''github://file/a/b/c.ext'')"
proof -
  have env: "SOURCE_REPOSITORY_NAME demo_env = Some (''octo'' @ ''/'' @ ''demo'')"
    by (simp add: demo_env_def)
  have parts: "''octo'' \<noteq> []" "''demo'' \<noteq> []" "CHR ''/'' \<notin> set ''octo''" "CHR ''/'' \<notin> set ''demo''"
    by simp_all
  have listing: "snd (listFiles (demo_Octokit ''tok'') ''octo'' ''demo'' (BRANCH_NAME demo_env)) =
     Inr [\<lparr>file_path = ''a/b/c.ext'', file_name = ''c.ext'', file_size = 12\<rparr>,
          \<lparr>file_path = ''README.md'', file_name = ''README.md'', file_size = 0\<rparr>]"
    by (simp add: listFiles_def listFiles_try_def demo_Octokit_def demo_tree_def demo_env_def
        is_file_item_def to_listed_file_def leaf_name_def pop_def)
  from descriptor_name_title_uri
         [where Octokit = demo_Octokit and tok = "''tok''", OF env parts listing]
  obtain resources where
    run: "snd (createFileResources demo_Octokit ''tok'' demo_env) = Inr resources"
    and resources: "resources =
             map (\<lambda>file. FileResource_new ''tok'' ''octo'' ''demo'' (file_path file)
                           (last (split CHR ''/'' (file_path file))) (file_size file))
               [\<lparr>file_path = ''a/b/c.ext'', file_name = ''c.ext'', file_size = 12\<rparr>,
                \<lparr>file_path = ''README.md'', file_name = ''README.md'', file_size = 0\<rparr>]"
    and paths: "\<forall>a b c. a @ ''/'' @ b @ ''/'' @ c \<in> file_path `
                 set [\<lparr>file_path = ''a/b/c.ext'', file_name = ''c.ext'', file_size = 12\<rparr>,
                      \<lparr>file_path = ''README.md'', file_name = ''README.md'', file_size = 0\<rparr>]
               \<and> CHR ''/'' \<notin> set c \<longrightarrow>
               (\<exists>r \<in> set resources.
                   name r = a @ ''/'' @ b @ ''/'' @ c
                 \<and> title r = c
                 \<and> uri r = ''github://file/'' @ a @ ''/'' @ b @ ''/'' @ c)"
    by blast
  have evaluated: "resources =
     [FileResource_new ''tok'' ''octo'' ''demo'' ''a/b/c.ext'' ''c.ext'' 12,
      FileResource_new ''tok'' ''octo'' ''demo'' ''README.md'' ''README.md'' 0]"
    unfolding resources by simp
  have "''a'' @ ''/'' @ ''b'' @ ''/'' @ ''c.ext'' \<in> file_path `
                 set [\<lparr>file_path = ''a/b/c.ext'', file_name = ''c.ext'', file_size = 12\<rparr>,
                      \<lparr>file_path = ''README.md'', file_name = ''README.md'', file_size = 0\<rparr>]
        \<and> CHR ''/'' \<notin> set ''c.ext''"
    by simp
  with paths have "\<exists>r \<in> set resources.
                   name r = ''a'' @ ''/'' @ ''b'' @ ''/'' @ ''c.ext''
                 \<and> title r = ''c.ext''
                 \<and> uri r = ''github://file/'' @ ''a'' @ ''/'' @ ''b'' @ ''/'' @ ''c.ext''"
    by blast
  then have "\<exists>r \<in> set resources.
         name r = ''a/b/c.ext'' \<and> title r = ''c.ext'' \<and> uri r = ''github://file/a/b/c.ext''"
    by simp
  with run show ?thesis
    unfolding evaluated by (rule conjI)
qed

section \<open>Failures of the enumeration\<close>

text \<open>
  Claim C1. For every access token, every environment and every behaviour of the remote
  service, the enumeration is fulfilled and never rejected; and whenever the listing of
  the files throws, whatever remote call failed and with whatever value, the enumeration
  is fulfilled with the empty sequence.
\<close>

theorem createFileResources_never_throws:
  "(\<exists>resources. snd (createFileResources Octokit tok env) = Inr resources)
   \<and> (\<forall>n ow rp error.
         SOURCE_REPOSITORY_NAME env = Some n \<and> repoMatch n = Some (ow, rp)
       \<and> snd (listFiles (Octokit tok) ow rp (BRANCH_NAME env)) = Inl error
       \<longrightarrow> snd (createFileResources Octokit tok env) = Inr [])"
proof (intro conjI allI impI)
  show "\<exists>resources. snd (createFileResources Octokit tok env) = Inr resources"
    using createFileResources_cases [of Octokit tok env] by auto
next
  fix n ow rp error
  assume "SOURCE_REPOSITORY_NAME env = Some n \<and> repoMatch n = Some (ow, rp)
       \<and> snd (listFiles (Octokit tok) ow rp (BRANCH_NAME env)) = Inl error"
  then show "snd (createFileResources Octokit tok env) = Inr []"
    by (auto simp: createFileResources_def Let_def split: prod.splits sum.splits)
qed

theorem createFileResources_never_throws_witness:
  "SOURCE_REPOSITORY_NAME demo_env = Some ''octo/demo''
   \<and> repoMatch ''octo/demo'' = Some (''octo'', ''demo'')
   \<and> snd (listFiles (unreachable_Octokit ''tok'') ''octo'' ''demo'' (BRANCH_NAME demo_env))
       = Inl (Error ''Not Found'')
   \<and> snd (createFileResources unreachable_Octokit ''tok'' demo_env) = Inr []"
proof -
  have hyp: "SOURCE_REPOSITORY_NAME demo_env = Some ''octo/demo''
   \<and> repoMatch ''octo/demo'' = Some (''octo'', ''demo'')
   \<and> snd (listFiles (unreachable_Octokit ''tok'') ''octo'' ''demo'' (BRANCH_NAME demo_env))
       = Inl (Error ''Not Found'')"
    by (simp add: demo_env_def repoMatch_def not_slash_plus_def listFiles_def listFiles_try_def
        unreachable_Octokit_def)
  from createFileResources_never_throws [of unreachable_Octokit "''tok''" demo_env] hyp
  have "snd (createFileResources unreachable_Octokit ''tok'' demo_env) = Inr []"
    by blast
  with hyp show ?thesis by simp
qed

section \<open>Properties of the media type inference\<close>

lemma of_char_lower_char:
  "(of_char (lower_char c) :: nat) =
     (if 65 \<le> (of_char c :: nat) \<and> (of_char c :: nat) \<le> 90 then of_char c + 32 else of_char c)"
  by (simp add: lower_char_def Let_def)

lemma lower_char_not_upper:
  "\<not> (65 \<le> (of_char (lower_char c) :: nat) \<and> (of_char (lower_char c) :: nat) \<le> 90)"
  by (simp add: of_char_lower_char)

lemma lower_char_dot: "lower_char c = CHR ''.'' \<longleftrightarrow> c = CHR ''.''"
proof -
  have "lower_char c = CHR ''.'' \<longleftrightarrow> (of_char (lower_char c) :: nat) = of_char CHR ''.''"
    by (simp only: of_char_eq_iff)
  also have "\<dots> \<longleftrightarrow> (of_char c :: nat) = of_char CHR ''.''"
    by (simp add: of_char_lower_char)
  also have "\<dots> \<longleftrightarrow> c = CHR ''.''"
    by (simp only: of_char_eq_iff)
  finally show ?thesis .
qed

lemma lower_char_idem: "lower_char (lower_char c) = lower_char c"
  using lower_char_not_upper [of c] by (auto simp: lower_char_def [of "lower_char c"] Let_def)

lemma split_map:
  assumes "\<And>c. f c = sep \<longleftrightarrow> c = sep"
  shows "split sep (map f s) = map (map f) (split sep s)"
  by (induction s) (auto simp: assms split: list.splits)

lemma last_split_toLowerCase:
  "toLowerCase (last (split CHR ''.'' s)) = last (split CHR ''.'' (toLowerCase s))"
  by (simp add: toLowerCase_def split_map [of lower_char, OF lower_char_dot] last_map split_not_Nil)

lemma getMimeType_key:
  "getMimeType filename =
     (case mimeTypes_get (last (split CHR ''.'' (toLowerCase filename))) of
        None \<Rightarrow> JSString ''application/octet-stream''
      | Some v \<Rightarrow> if truthy v then v else JSString ''application/octet-stream'')"
  by (simp add: getMimeType_def pop_split last_split_toLowerCase)

text \<open>The result depends on the file name only up to the case of its letters.\<close>

lemma getMimeType_case_insensitive:
  "toLowerCase f1 = toLowerCase f2 \<Longrightarrow> getMimeType f1 = getMimeType f2"
  by (simp add: getMimeType_key)

lemma getMimeType_upper_lower: "getMimeType (toLowerCase f) = getMimeType f"
  by (rule getMimeType_case_insensitive) (simp add: toLowerCase_def lower_char_idem)

lemma getMimeType_extension:
  assumes "CHR ''.'' \<notin> set ext"
  shows "getMimeType (base @ ''.'' @ ext) =
     (case mimeTypes_get (toLowerCase ext) of
        None \<Rightarrow> JSString ''application/octet-stream''
      | Some v \<Rightarrow> if truthy v then v else JSString ''application/octet-stream'')"
proof -
  have "last (split CHR ''.'' (base @ CHR ''.'' # ext)) = ext"
    by (rule last_split_append [OF assms])
  then show ?thesis
    by (simp add: getMimeType_def pop_split)
qed

text \<open>Every extension of the table, in lower case, yields the type the table gives it.\<close>

lemma mimeTypes_entries:
  "list_all (\<lambda>(k, v). CHR ''.'' \<notin> set k
                      \<and> mimeTypes_get (toLowerCase k) = Some (JSString v) \<and> v \<noteq> [])
            mimeTypes"
  by code_simp

lemma getMimeType_table:
  assumes "(k, v) \<in> set mimeTypes"
  shows "getMimeType (base @ ''.'' @ k) = JSString v"
proof -
  from assms mimeTypes_entries
  have dot: "CHR ''.'' \<notin> set k"
    and found: "mimeTypes_get (toLowerCase k) = Some (JSString v)" and "v \<noteq> []"
    by (auto simp: list_all_iff)
  then show ?thesis
    unfolding getMimeType_extension [OF dot] by (simp add: truthy_def)
qed

lemma toLowerCase_no_upper:
  "c \<in> set (toLowerCase s) \<Longrightarrow> \<not> (65 \<le> (of_char c :: nat) \<and> (of_char c :: nat) \<le> 90)"
  using lower_char_not_upper by (auto simp: toLowerCase_def)

lemma toLowerCase_inherited:
  assumes "toLowerCase s \<in> set Object_prototype_keys"
  shows "toLowerCase s = ''constructor'' \<or> toLowerCase s = ''__proto__''"
proof (rule ccontr)
  assume other: "\<not> ?thesis"
  with assms have "\<exists>c \<in> set (toLowerCase s). 65 \<le> (of_char c :: nat) \<and> (of_char c :: nat) \<le> 90"
    unfolding Object_prototype_keys_def by auto
  with toLowerCase_no_upper show False by blast
qed

text \<open>
  An extension after a dot that is not in the table yields the generic type, unless it
  is one of the two lower-case names that every object inherits.
\<close>

lemma getMimeType_unknown_extension:
  assumes "CHR ''.'' \<notin> set ext" and "toLowerCase ext \<notin> fst ` set mimeTypes"
    and "toLowerCase ext \<noteq> ''constructor''" and "toLowerCase ext \<noteq> ''__proto__''"
  shows "getMimeType (base @ ''.'' @ ext) = JSString ''application/octet-stream''"
proof -
  have "map_of mimeTypes (toLowerCase ext) = None"
    using assms(2) by (simp add: map_of_eq_None_iff)
  moreover have "toLowerCase ext \<notin> set Object_prototype_keys"
    using assms(3,4) toLowerCase_inherited by blast
  ultimately have "mimeTypes_get (toLowerCase ext) = None"
    by (simp add: mimeTypes_get_def)
  then show ?thesis
    unfolding getMimeType_extension [OF assms(1)] by simp
qed

text \<open>
  Claim C2 says that a file name with no extension at all gets the generic type
  \<^verbatim>\<open>application/octet-stream\<close>, as does a name with an unrecognized extension. The code
  takes the last piece of the name split at the dots, which is the whole name when there
  is no dot: the name \<^verbatim>\<open>sh\<close> has no extension and gets \<^verbatim>\<open>text/x-shellscript\<close>. The lookup
  also follows the prototype chain of the table: the extension \<^verbatim>\<open>constructor\<close> is not in
  the table, and the result for \<^verbatim>\<open>notes.constructor\<close> is the inherited member, not a media
  type.
\<close>

theorem getMimeType_name_without_extension:
  "CHR ''.'' \<notin> set ''sh''
   \<and> getMimeType ''sh'' = JSString ''text/x-shellscript''
   \<and> getMimeType ''sh'' \<noteq> JSString ''application/octet-stream''
   \<and> ''constructor'' \<notin> fst ` set mimeTypes
   \<and> getMimeType ''notes.constructor'' = JSInherited ''constructor''"
  by (simp add: getMimeType_def pop_def toLowerCase_def lower_char_def mimeTypes_get_def
      mimeTypes_def truthy_def Object_prototype_keys_def)

end
